theory Spec2Isabelle
  imports Main "HOL-Library.Sublist"
begin

section \<open>The command line of not-cloud-init (\<^verbatim>\<open>src/not_cloud_init/cli.py\<close>)\<close>

subsection \<open>Arguments, environment and observable events\<close>

text \<open>
  The parameters of \<^verbatim>\<open>cli\<close> as click fills them in, one field per option. The click
  context \<^verbatim>\<open>ctx\<close> is never read by the body and is left out.
\<close>

record cli_args =
  interactive :: bool
  quiet :: bool
  output_path :: string
  force :: bool
  gather_public_keys :: bool
  password :: "string option"
  disable_apt :: bool
  disable_snap :: bool
  disable_ssh :: bool
  disable_user :: bool
  enable_hostname :: bool
  rename_to_ubuntu_user :: bool

text \<open>
  The keyword arguments of the one call of \<^verbatim>\<open>create_cloud_init_config\<close> (lines 149-157).
  The generator itself lives in \<^verbatim>\<open>not_cloud_init.generator\<close>; here it is only called.
\<close>

record generator_call =
  kw_output_path :: string
  kw_interactive :: bool
  kw_gather_public_keys :: bool
  kw_password :: "string option"
  kw_disabled_configs :: "string list"
  kw_rename_to_ubuntu_user :: bool
  kw_quiet :: bool

text \<open>
  What the command line reads from outside: the file system through \<^verbatim>\<open>os.path.exists\<close>,
  and the operator's answers to \<^verbatim>\<open>click.prompt\<close> and \<^verbatim>\<open>click.confirm\<close>. An answer of
  \<open>None\<close> is the operator pressing Enter, which makes click return the default it was
  given. The operator is assumed to answer; an interrupt at a prompt is not modelled.
\<close>

record env =
  path_exists :: "string \<Rightarrow> bool"
  prompt_answer :: "string option"
  confirm_answer :: "bool option"

text \<open>
  Every call that leaves \<^verbatim>\<open>cli.py\<close>, in the order it is made. \<open>Prompt\<close> and \<open>Confirm\<close>
  carry the text shown and the value click returned; \<open>PathExists\<close> is a call of
  \<^verbatim>\<open>os.path.exists\<close>.
\<close>

datatype event =
    ConfigureLogging
  | SetQuietMode bool
  | PrintError string
  | PrintWarning string
  | PrintInfo string
  | PathExists string
  | Prompt string string
  | Confirm string bool
  | CreateCloudInitConfig generator_call

text \<open>A computation either leaves through \<^verbatim>\<open>sys.exit(code)\<close> or returns a value.\<close>

datatype 'a result = SysExit int | Return 'a

definition default_output_path :: string where
  "default_output_path = ''cloud-config.yaml''"

definition os_path_exists :: "env \<Rightarrow> string \<Rightarrow> bool" where
  "os_path_exists e p = path_exists e p"

definition click_prompt :: "env \<Rightarrow> string \<Rightarrow> string" where
  "click_prompt e dflt = (case prompt_answer e of None \<Rightarrow> dflt | Some s \<Rightarrow> s)"

definition click_confirm :: "env \<Rightarrow> bool \<Rightarrow> bool" where
  "click_confirm e dflt = (case confirm_answer e of None \<Rightarrow> dflt | Some b \<Rightarrow> b)"

subsection \<open>The messages\<close>

definition conflict_message :: string where
  "conflict_message =
     ''Cannot use interactive mode with disabling or enabling specific configurations.''"

definition exists_message :: "string \<Rightarrow> string" where
  "exists_message p = ''Output file '' @ p @
     '' already exists. Use --force or -f to allow writing over existing file''"

definition overwrite_message :: "string \<Rightarrow> string" where
  "overwrite_message p = ''Output file '' @ p @ '' already exists. Will overwrite file.''"

definition prompt_text :: string where
  "prompt_text = ''Enter the path to save the cloud-init config file''"

definition selected_message :: "string \<Rightarrow> string" where
  "selected_message p = p @ '' has been selected as the output path.''"

definition confirm_text :: "string \<Rightarrow> string" where
  "confirm_text p = ''The file '' @ [CHR 0x27] @ p @ [CHR 0x27] @
     '' already exists. Do you want to overwrite it?''"

definition abort_message :: string where
  "abort_message =
     ''Aborting because the file already exists and the user chose not to overwrite.''"

subsection \<open>\<^verbatim>\<open>get_output_path\<close> (lines 162-190)\<close>

definition get_output_path :: "env \<Rightarrow> string \<Rightarrow> event list \<times> string result" where
  "get_output_path e output_path0 =
     (let (asked, p) =
            (if output_path0 = default_output_path
             then ([Prompt prompt_text (click_prompt e default_output_path)],
                   click_prompt e default_output_path)
             else ([], output_path0));
          chosen = asked @ [PrintInfo (selected_message p), PathExists p]
      in if os_path_exists e p
         then (let overwrite = click_confirm e False
               in if \<not> overwrite
                  then (chosen @ [Confirm (confirm_text p) overwrite, PrintError abort_message],
                        SysExit 1)
                  else (chosen @ [Confirm (confirm_text p) overwrite], Return p))
         else (chosen, Return p))"

subsection \<open>\<^verbatim>\<open>cli\<close> (lines 92-157)\<close>

text \<open>Lines 118-121: logging is configured, then quiet mode is switched on if asked.\<close>

definition startup :: "cli_args \<Rightarrow> event list" where
  "startup a = ConfigureLogging # (if quiet a then [SetQuietMode True] else [])"

text \<open>The condition of line 124.\<close>

definition flag_conflict :: "cli_args \<Rightarrow> bool" where
  "flag_conflict a \<longleftrightarrow>
     interactive a \<and>
     (disable_apt a \<or> disable_snap a \<or> disable_ssh a \<or> disable_user a \<or> enable_hostname a)"

text \<open>
  Lines 128-134. Python evaluates \<^verbatim>\<open>os.path.exists(...) and not force\<close> from the left, so
  the path is looked up whenever the first branch is not taken, also under \<^verbatim>\<open>--force\<close>.
\<close>

definition resolve_output :: "env \<Rightarrow> cli_args \<Rightarrow> event list \<times> string result" where
  "resolve_output e a =
     (if interactive a \<and> \<not> force a then get_output_path e (output_path a)
      else if os_path_exists e (output_path a) \<and> \<not> force a
      then ([PathExists (output_path a), PrintError (exists_message (output_path a))],
            SysExit 1)
      else if force a
      then ([PathExists (output_path a), PrintWarning (overwrite_message (output_path a))],
            Return (output_path a))
      else ([PathExists (output_path a)], Return (output_path a)))"

text \<open>Lines 137-147: the list grows by \<^verbatim>\<open>append\<close>, one test after the other.\<close>

definition disabled_configs :: "cli_args \<Rightarrow> string list" where
  "disabled_configs a =
     (if disable_apt a then [''apt''] else []) @
     (if disable_snap a then [''snap''] else []) @
     (if disable_ssh a then [''ssh''] else []) @
     (if disable_user a then [''user''] else []) @
     (if \<not> enable_hostname a then [''hostname''] else [])"

definition generator_args :: "cli_args \<Rightarrow> string \<Rightarrow> generator_call" where
  "generator_args a p =
     \<lparr> kw_output_path = p,
       kw_interactive = interactive a,
       kw_gather_public_keys = gather_public_keys a,
       kw_password = password a,
       kw_disabled_configs = disabled_configs a,
       kw_rename_to_ubuntu_user = rename_to_ubuntu_user a,
       kw_quiet = quiet a \<rparr>"

text \<open>
  The whole command. \<open>Return ()\<close> means that the body reached its last statement, the call
  of the generator; what the generator then does is outside this file.
\<close>

definition cli :: "env \<Rightarrow> cli_args \<Rightarrow> event list \<times> unit result" where
  "cli e a =
     (if flag_conflict a
      then (startup a @ [PrintError conflict_message], SysExit 1)
      else (case resolve_output e a of
              (t, SysExit c) \<Rightarrow> (startup a @ t, SysExit c)
            | (t, Return p) \<Rightarrow>
                (startup a @ t @ [CreateCloudInitConfig (generator_args a p)], Return ())))"

text \<open>Classifying events.\<close>

fun is_generator_call :: "event \<Rightarrow> bool" where
  "is_generator_call (CreateCloudInitConfig g) = True"
| "is_generator_call _ = False"

fun is_path_check :: "event \<Rightarrow> bool" where
  "is_path_check (PathExists p) = True"
| "is_path_check _ = False"

fun is_prompt :: "event \<Rightarrow> bool" where
  "is_prompt (Prompt t r) = True"
| "is_prompt _ = False"

fun is_confirm :: "event \<Rightarrow> bool" where
  "is_confirm (Confirm t r) = True"
| "is_confirm _ = False"

fun is_warning :: "event \<Rightarrow> bool" where
  "is_warning (PrintWarning m) = True"
| "is_warning _ = False"

fun is_info :: "event \<Rightarrow> bool" where
  "is_info (PrintInfo m) = True"
| "is_info _ = False"

text \<open>
  The path \<^verbatim>\<open>get_output_path\<close> goes on with after lines 169-175: the operator's answer
  when the caller left the default, the caller's path otherwise.
\<close>

definition chosen_path :: "env \<Rightarrow> string \<Rightarrow> string" where
  "chosen_path e p0 =
     (if p0 = default_output_path then click_prompt e default_output_path else p0)"

text \<open>
  The four options that disable a module (\<^verbatim>\<open>--disable-apt\<close>, \<^verbatim>\<open>--disable-snap\<close>,
  \<^verbatim>\<open>--disable-ssh\<close>, \<^verbatim>\<open>--disable-user\<close>, lines 59-82). No option disables the hostname
  module.
\<close>

definition disable_flag_passed :: "cli_args \<Rightarrow> string \<Rightarrow> bool" where
  "disable_flag_passed a m \<longleftrightarrow>
     m = ''apt'' \<and> disable_apt a \<or> m = ''snap'' \<and> disable_snap a \<or>
     m = ''ssh'' \<and> disable_ssh a \<or> m = ''user'' \<and> disable_user a"

text \<open>The command line with no option given: every click default of lines 17-88.\<close>

definition default_args :: cli_args where
  "default_args =
     \<lparr> interactive = False, quiet = False, output_path = default_output_path, force = False,
       gather_public_keys = False, password = None, disable_apt = False, disable_snap = False,
       disable_ssh = False, disable_user = False, enable_hostname = False,
       rename_to_ubuntu_user = False \<rparr>"

text \<open>An empty directory and an operator who only presses Enter.\<close>

definition no_files :: env where
  "no_files = \<lparr> path_exists = (\<lambda>p. False), prompt_answer = None, confirm_answer = None \<rparr>"

section \<open>The assembly engine behind \<^verbatim>\<open>create_cloud_init_config\<close>\<close>

text \<open>
  Modelled from the spec: the module \<^verbatim>\<open>not_cloud_init.generator\<close>, which holds
  \<^verbatim>\<open>create_cloud_init_config\<close> and the five gathering modules, is not among the sources.
  Everything in this section follows sections 3, 4.1, 4.2 and 4.3 of the specification.
\<close>

text \<open>Modelled from the spec: ModuleName, the fixed closed set of section 3.\<close>

datatype moduleName = Apt | Snap | Ssh | User | Hostname

text \<open>Modelled from the spec: the fixed module order of sections 4.2 and 4.3.\<close>

definition module_order :: "moduleName list" where
  "module_order = [Apt, Snap, Ssh, User, Hostname]"

text \<open>
  Modelled from the spec: the name of each module, as \<^verbatim>\<open>cli.py\<close> writes it into
  \<^verbatim>\<open>disabled_configs\<close>.
\<close>

fun module_key :: "moduleName \<Rightarrow> string" where
  "module_key Apt = ''apt''"
| "module_key Snap = ''snap''"
| "module_key Ssh = ''ssh''"
| "module_key User = ''user''"
| "module_key Hostname = ''hostname''"

text \<open>
  Modelled from the spec: the values of a structured document (scalar, sequence or nested
  mapping), Fragment and Document of section 3. Both are mappings kept in writing order.
\<close>

datatype yaml = Scalar string | Sequence "yaml list" | Mapping "(string \<times> yaml) list"

type_synonym fragment = "(string \<times> yaml) list"

type_synonym document = "(string \<times> yaml) list"

text \<open>Modelled from the spec: GatherContext of section 3.\<close>

record gather_context =
  ctx_interactive :: bool
  ctx_gather_public_keys :: bool
  ctx_password :: "string option"
  ctx_rename_to_ubuntu_user :: bool

text \<open>
  Modelled from the spec: the module contract of section 4.1,
  \<^verbatim>\<open>gather(context) -> Fragment | Disabled | Error\<close>. A module reads the host and changes
  nothing, so the five modules together are a function of the module, the host state
  \<open>'h\<close> and the context. The host state stands for all a module reads.
\<close>

datatype gather_result = Fragment fragment | Disabled | GatherError string

type_synonym 'h modules = "moduleName \<Rightarrow> 'h \<Rightarrow> gather_context \<Rightarrow> gather_result"

text \<open>
  Modelled from the spec: AssemblyError, that is the failure of a module with its cause, or
  the MergeInvariantError of section 7 with the key written twice.
\<close>

datatype assembly_error = GatherFailure moduleName string | MergeInvariantError string

text \<open>
  Modelled from the spec: the Fragment Merger of section 4.2. A key that is already in the
  document is fatal, nothing is overwritten.
\<close>

fun merge_fragment :: "document \<Rightarrow> fragment \<Rightarrow> assembly_error + document" where
  "merge_fragment doc [] = Inr doc"
| "merge_fragment doc ((k, v) # kvs) =
     (if k \<in> fst ` set doc then Inl (MergeInvariantError k)
      else merge_fragment (doc @ [(k, v)]) kvs)"

text \<open>Modelled from the spec: the fold of the fragments, in their order (section 4.2).\<close>

fun merge_all :: "document \<Rightarrow> fragment list \<Rightarrow> assembly_error + document" where
  "merge_all doc [] = Inr doc"
| "merge_all doc (f # fs) =
     (case merge_fragment doc f of Inl err \<Rightarrow> Inl err | Inr doc' \<Rightarrow> merge_all doc' fs)"

text \<open>
  Modelled from the spec: section 4.3, the engine builds the module list and filters out
  every module of the disabled set.
\<close>

definition enabled_modules :: "moduleName set \<Rightarrow> moduleName list" where
  "enabled_modules disabledSet = filter (\<lambda>m. m \<notin> disabledSet) module_order"

text \<open>
  Modelled from the spec: the state machine of section 4.3,
  \<^verbatim>\<open>Pending -> Running(moduleIndex) -> {Succeeded(Document) | Failed(moduleName, error)}\<close>.
  A running engine also holds the fragments gathered so far.
\<close>

datatype engine_state =
    Pending
  | Running nat "fragment list"
  | Succeeded document
  | Failed assembly_error

text \<open>
  Modelled from the spec: one transition of the engine (section 4.3). The module at the
  current index is invoked; a fragment is kept, a disabled module contributes nothing, an
  error ends the run at once. After the last module the fragments are merged.
\<close>

inductive engine_step ::
  "'h modules \<Rightarrow> 'h \<Rightarrow> gather_context \<Rightarrow> moduleName list \<Rightarrow>
   engine_state \<Rightarrow> engine_state \<Rightarrow> bool"
  for gather :: "'h modules" and host :: 'h and ctx :: gather_context
    and ms :: "moduleName list"
where
  start: "engine_step gather host ctx ms Pending (Running 0 [])"
| contributed:
    "i < length ms \<Longrightarrow> gather (ms ! i) host ctx = Fragment f \<Longrightarrow>
     engine_step gather host ctx ms (Running i fs) (Running (Suc i) (fs @ [f]))"
| skipped:
    "i < length ms \<Longrightarrow> gather (ms ! i) host ctx = Disabled \<Longrightarrow>
     engine_step gather host ctx ms (Running i fs) (Running (Suc i) fs)"
| aborted:
    "i < length ms \<Longrightarrow> gather (ms ! i) host ctx = GatherError why \<Longrightarrow>
     engine_step gather host ctx ms (Running i fs) (Failed (GatherFailure (ms ! i) why))"
| merged:
    "length ms \<le> i \<Longrightarrow> merge_all [] fs = Inr doc \<Longrightarrow>
     engine_step gather host ctx ms (Running i fs) (Succeeded doc)"
| clashed:
    "length ms \<le> i \<Longrightarrow> merge_all [] fs = Inl err \<Longrightarrow>
     engine_step gather host ctx ms (Running i fs) (Failed err)"

text \<open>
  Modelled from the spec: a run of the engine for a disabled set, any number of transitions
  over the enabled modules.
\<close>

definition engine_run ::
  "'h modules \<Rightarrow> 'h \<Rightarrow> gather_context \<Rightarrow> moduleName set \<Rightarrow>
   engine_state \<Rightarrow> engine_state \<Rightarrow> bool" where
  "engine_run gather host ctx disabledSet =
     (engine_step gather host ctx (enabled_modules disabledSet))\<^sup>*\<^sup>*"

text \<open>Modelled from the spec: the two states in which a run has ended.\<close>

fun final :: "engine_state \<Rightarrow> bool" where
  "final (Succeeded doc) = True"
| "final (Failed err) = True"
| "final _ = False"

text \<open>
  Modelled from the spec: the gathering loop of section 4.3 as a function. It returns the
  modules it invoked, in the order of invocation, and either the first failure or all
  fragments.
\<close>

fun gather_all ::
  "'h modules \<Rightarrow> 'h \<Rightarrow> gather_context \<Rightarrow> moduleName list \<Rightarrow>
   moduleName list \<times> (assembly_error + fragment list)" where
  "gather_all gather host ctx [] = ([], Inr [])"
| "gather_all gather host ctx (m # ms) =
     (case gather m host ctx of
        GatherError why \<Rightarrow> ([m], Inl (GatherFailure m why))
      | Disabled \<Rightarrow>
          (case gather_all gather host ctx ms of (invoked, r) \<Rightarrow> (m # invoked, r))
      | Fragment f \<Rightarrow>
          (case gather_all gather host ctx ms of
             (invoked, Inl err) \<Rightarrow> (m # invoked, Inl err)
           | (invoked, Inr fs) \<Rightarrow> (m # invoked, Inr (f # fs))))"

text \<open>
  Modelled from the spec: the entry point of section 4.3,
  \<^verbatim>\<open>assemble(disabledSet, context) -> Document | AssemblyError\<close>.
\<close>

definition assemble ::
  "'h modules \<Rightarrow> 'h \<Rightarrow> moduleName set \<Rightarrow> gather_context \<Rightarrow> assembly_error + document" where
  "assemble gather host disabledSet ctx =
     (case snd (gather_all gather host ctx (enabled_modules disabledSet)) of
        Inl err \<Rightarrow> Inl err
      | Inr fs \<Rightarrow> merge_all [] fs)"

text \<open>Modelled from the spec: the final state that stands for a result of \<open>assemble\<close>.\<close>

fun outcome_state :: "assembly_error + document \<Rightarrow> engine_state" where
  "outcome_state (Inl err) = Failed err"
| "outcome_state (Inr doc) = Succeeded doc"

text \<open>
  Modelled from the spec: the DisabledSet of section 3, computed from the names that
  \<^verbatim>\<open>cli.py\<close> hands over in \<^verbatim>\<open>disabled_configs\<close>.
\<close>

definition disabled_set :: "string list \<Rightarrow> moduleName set" where
  "disabled_set names = set (filter (\<lambda>m. module_key m \<in> set names) module_order)"

text \<open>
  Three modules for experiments on the host \<open>()\<close>: apt and user contribute one key each,
  ssh cannot read its directory, the others contribute nothing.
\<close>

fun sample_modules :: "unit modules" where
  "sample_modules Apt h c = Fragment [(''apt'', Scalar ''sources'')]"
| "sample_modules Ssh h c = GatherError ''permission denied''"
| "sample_modules User h c = Fragment [(''users'', Sequence [Scalar ''me''])]"
| "sample_modules m h c = Disabled"

definition sample_context :: gather_context where
  "sample_context =
     \<lparr> ctx_interactive = False, ctx_gather_public_keys = True, ctx_password = None,
       ctx_rename_to_ubuntu_user = False \<rparr>"

section \<open>Facts about the command line\<close>

subsection \<open>The shape of every run\<close>

lemma startup_events:
  "ev \<in> set (startup a) \<Longrightarrow> ev = ConfigureLogging \<or> ev = SetQuietMode True"
  by (auto simp: startup_def split: if_splits)

lemma cli_conflict:
  "flag_conflict a \<Longrightarrow> cli e a = (startup a @ [PrintError conflict_message], SysExit 1)"
  by (simp add: cli_def)

lemma get_output_path_declined:
  assumes "os_path_exists e (chosen_path e p0)" and "\<not> click_confirm e False"
  shows "get_output_path e p0 =
     ((if p0 = default_output_path then [Prompt prompt_text (chosen_path e p0)] else []) @
      [PrintInfo (selected_message (chosen_path e p0)), PathExists (chosen_path e p0),
       Confirm (confirm_text (chosen_path e p0)) False, PrintError abort_message], SysExit 1)"
  using assms
  by (cases "p0 = default_output_path"; simp add: get_output_path_def chosen_path_def)

lemma get_output_path_accepted:
  assumes "os_path_exists e (chosen_path e p0)" and "click_confirm e False"
  shows "get_output_path e p0 =
     ((if p0 = default_output_path then [Prompt prompt_text (chosen_path e p0)] else []) @
      [PrintInfo (selected_message (chosen_path e p0)), PathExists (chosen_path e p0),
       Confirm (confirm_text (chosen_path e p0)) True], Return (chosen_path e p0))"
  using assms
  by (cases "p0 = default_output_path"; simp add: get_output_path_def chosen_path_def)

lemma get_output_path_fresh:
  assumes "\<not> os_path_exists e (chosen_path e p0)"
  shows "get_output_path e p0 =
     ((if p0 = default_output_path then [Prompt prompt_text (chosen_path e p0)] else []) @
      [PrintInfo (selected_message (chosen_path e p0)), PathExists (chosen_path e p0)],
      Return (chosen_path e p0))"
  using assms
  by (cases "p0 = default_output_path"; simp add: get_output_path_def chosen_path_def)

lemmas get_output_path_cases =
  get_output_path_declined get_output_path_accepted get_output_path_fresh

lemma cli_interactive:
  assumes "interactive a" and "\<not> force a" and "\<not> flag_conflict a"
  shows "cli e a = (case get_output_path e (output_path a) of
              (t, SysExit c) \<Rightarrow> (startup a @ t, SysExit c)
            | (t, Return p) \<Rightarrow>
                (startup a @ t @ [CreateCloudInitConfig (generator_args a p)], Return ()))"
  using assms by (simp add: cli_def resolve_output_def)

lemma cli_interactive_trace:
  assumes "interactive a" and "\<not> force a" and "\<not> flag_conflict a"
  shows "cli e a =
    (let p = chosen_path e (output_path a);
         t = startup a @
             (if output_path a = default_output_path then [Prompt prompt_text p] else []) @
             [PrintInfo (selected_message p), PathExists p]
     in if os_path_exists e p
        then if click_confirm e False
             then (t @ [Confirm (confirm_text p) True,
                        CreateCloudInitConfig (generator_args a p)], Return ())
             else (t @ [Confirm (confirm_text p) False, PrintError abort_message], SysExit 1)
        else (t @ [CreateCloudInitConfig (generator_args a p)], Return ()))"
  using assms
  by (cases "os_path_exists e (chosen_path e (output_path a))"; cases "click_confirm e False")
     (simp_all add: cli_interactive get_output_path_cases Let_def)

lemma cli_refused:
  assumes "\<not> interactive a" and "os_path_exists e (output_path a)" and "\<not> force a"
  shows "cli e a = (startup a @ [PathExists (output_path a),
                      PrintError (exists_message (output_path a))], SysExit 1)"
  using assms by (simp add: cli_def resolve_output_def flag_conflict_def)

lemma cli_forced:
  assumes "force a" and "\<not> flag_conflict a"
  shows "cli e a = (startup a @ [PathExists (output_path a),
                      PrintWarning (overwrite_message (output_path a)),
                      CreateCloudInitConfig (generator_args a (output_path a))], Return ())"
  using assms by (simp add: cli_def resolve_output_def)

lemma cli_plain:
  assumes "\<not> interactive a" and "\<not> os_path_exists e (output_path a)" and "\<not> force a"
  shows "cli e a = (startup a @ [PathExists (output_path a),
                      CreateCloudInitConfig (generator_args a (output_path a))], Return ())"
  using assms by (simp add: cli_def resolve_output_def flag_conflict_def)

text \<open>
  The generator is called only by a run that was not rejected, it is the last thing the
  run does, and its arguments are those of lines 149-157.
\<close>

lemma cli_generator_call:
  assumes "CreateCloudInitConfig g \<in> set (fst (cli e a))"
  shows "\<not> flag_conflict a \<and> snd (cli e a) = Return () \<and> (\<exists>p. g = generator_args a p)"
proof (cases "flag_conflict a")
  case True
  with assms show ?thesis by (auto simp: cli_conflict dest: startup_events)
next
  case nc: False
  show ?thesis
  proof (cases "force a")
    case True
    with nc assms show ?thesis by (auto simp: cli_forced dest: startup_events)
  next
    case nf: False
    show ?thesis
    proof (cases "interactive a")
      case True
      with nf nc assms show ?thesis
        by (auto simp: cli_interactive_trace Let_def dest: startup_events split: if_splits)
    next
      case False
      with nf nc assms show ?thesis
        by (cases "os_path_exists e (output_path a)")
           (auto simp: cli_refused cli_plain dest: startup_events)
    qed
  qed
qed

text \<open>Unfolding everything, to run the command line on a concrete input.\<close>

lemmas cli_eval =
  cli_def resolve_output_def get_output_path_def flag_conflict_def startup_def
  generator_args_def disabled_configs_def os_path_exists_def click_prompt_def
  click_confirm_def chosen_path_def default_args_def no_files_def default_output_path_def

subsection \<open>Rejected runs\<close>

text \<open>
  C1. Interactive mode together with any of \<^verbatim>\<open>--disable-apt\<close>, \<^verbatim>\<open>--disable-snap\<close>,
  \<^verbatim>\<open>--disable-ssh\<close>, \<^verbatim>\<open>--disable-user\<close> or \<^verbatim>\<open>--enable-hostname\<close>: the run sets up
  logging (and quiet mode), reports the conflict through \<^verbatim>\<open>print_error\<close> and leaves with
  exit code 1. Nothing else happens: the generator is not called, no path is looked up,
  the operator is asked nothing.
\<close>

theorem conflict_exits_before_anything:
  assumes "interactive a"
    and "disable_apt a \<or> disable_snap a \<or> disable_ssh a \<or> disable_user a \<or> enable_hostname a"
  shows "cli e a = (startup a @ [PrintError conflict_message], SysExit 1) \<and>
         (\<forall>ev \<in> set (fst (cli e a)).
            \<not> is_generator_call ev \<and> \<not> is_path_check ev \<and> \<not> is_prompt ev \<and> \<not> is_confirm ev)"
proof -
  from assms have "flag_conflict a" by (simp add: flag_conflict_def)
  then have eq: "cli e a = (startup a @ [PrintError conflict_message], SysExit 1)"
    by (rule cli_conflict)
  show ?thesis unfolding eq by (auto dest: startup_events)
qed

theorem conflict_exits_before_anything_witness:
  "interactive (default_args\<lparr>interactive := True, quiet := True, disable_snap := True\<rparr>) \<and>
   disable_snap (default_args\<lparr>interactive := True, quiet := True, disable_snap := True\<rparr>) \<and>
   cli no_files (default_args\<lparr>interactive := True, quiet := True, disable_snap := True\<rparr>) =
     ([ConfigureLogging, SetQuietMode True, PrintError conflict_message], SysExit 1)"
proof -
  let ?a = "default_args\<lparr>interactive := True, quiet := True, disable_snap := True\<rparr>"
  have i: "interactive ?a" by (simp add: default_args_def)
  have d: "disable_apt ?a \<or> disable_snap ?a \<or> disable_ssh ?a \<or> disable_user ?a \<or>
           enable_hostname ?a"
    by (simp add: default_args_def)
  show ?thesis
    using conflict_exits_before_anything [OF i d, of no_files]
    by (simp add: startup_def default_args_def)
qed

text \<open>
  C2. Without interactive mode and without \<^verbatim>\<open>--force\<close>, an output path that exists makes
  the run print the error of line 131 and leave with exit code 1; the generator, which
  alone writes the output file, is not called.
\<close>

theorem existing_target_refused:
  assumes "\<not> interactive a" and "os_path_exists e (output_path a)" and "\<not> force a"
  shows "cli e a = (startup a @ [PathExists (output_path a),
                      PrintError (exists_message (output_path a))], SysExit 1) \<and>
         (\<forall>ev \<in> set (fst (cli e a)). \<not> is_generator_call ev)"
proof -
  note eq = cli_refused [OF assms]
  show ?thesis unfolding eq by (auto dest: startup_events)
qed

theorem existing_target_refused_witness:
  "\<not> interactive (default_args\<lparr>output_path := ''out.yaml''\<rparr>) \<and>
   os_path_exists (no_files\<lparr>path_exists := (\<lambda>p. p = ''out.yaml'')\<rparr>)
     (output_path (default_args\<lparr>output_path := ''out.yaml''\<rparr>)) \<and>
   \<not> force (default_args\<lparr>output_path := ''out.yaml''\<rparr>) \<and>
   cli (no_files\<lparr>path_exists := (\<lambda>p. p = ''out.yaml'')\<rparr>)
       (default_args\<lparr>output_path := ''out.yaml''\<rparr>) =
     ([ConfigureLogging, PathExists ''out.yaml'', PrintError (exists_message ''out.yaml'')],
      SysExit 1)"
proof -
  let ?a = "default_args\<lparr>output_path := ''out.yaml''\<rparr>"
  let ?e = "no_files\<lparr>path_exists := (\<lambda>p. p = ''out.yaml'')\<rparr>"
  have h1: "\<not> interactive ?a" and h3: "\<not> force ?a" by (simp_all add: default_args_def)
  have h2: "os_path_exists ?e (output_path ?a)" by (simp add: os_path_exists_def)
  show ?thesis
    using existing_target_refused [OF h1 h2 h3] h1 h2 h3
    by (simp add: startup_def default_args_def)
qed

text \<open>
  C3. In interactive mode, once the operator has answered no to the overwrite question
  (the event \<open>Confirm q False\<close>), the run leaves with exit code 1 and the generator is not
  called. The question was the one about the chosen path, and that path exists.
\<close>

theorem declined_overwrite_aborts:
  assumes "interactive a" and "Confirm q False \<in> set (fst (cli e a))"
  shows "snd (cli e a) = SysExit 1 \<and>
         (\<forall>ev \<in> set (fst (cli e a)). \<not> is_generator_call ev) \<and>
         q = confirm_text (chosen_path e (output_path a)) \<and>
         os_path_exists e (chosen_path e (output_path a))"
proof (cases "flag_conflict a")
  case True
  with assms(2) show ?thesis by (auto simp: cli_conflict dest: startup_events)
next
  case nc: False
  show ?thesis
  proof (cases "force a")
    case True
    with nc assms(2) show ?thesis by (auto simp: cli_forced dest: startup_events)
  next
    case False
    with nc assms show ?thesis
      by (auto simp: cli_interactive_trace Let_def dest: startup_events split: if_splits)
  qed
qed

theorem declined_overwrite_aborts_witness:
  "interactive (default_args\<lparr>interactive := True\<rparr>) \<and>
   Confirm (confirm_text ''old.yaml'') False \<in>
     set (fst (cli \<lparr>path_exists = (\<lambda>p. p = ''old.yaml''), prompt_answer = Some ''old.yaml'',
                    confirm_answer = None\<rparr> (default_args\<lparr>interactive := True\<rparr>))) \<and>
   snd (cli \<lparr>path_exists = (\<lambda>p. p = ''old.yaml''), prompt_answer = Some ''old.yaml'',
             confirm_answer = None\<rparr> (default_args\<lparr>interactive := True\<rparr>)) = SysExit 1"
proof -
  let ?a = "default_args\<lparr>interactive := True\<rparr>"
  let ?e = "\<lparr>path_exists = (\<lambda>p. p = ''old.yaml''), prompt_answer = Some ''old.yaml'',
             confirm_answer = None\<rparr>"
  have i: "interactive ?a" by (simp add: default_args_def)
  have c: "Confirm (confirm_text ''old.yaml'') False \<in> set (fst (cli ?e ?a))"
    by (simp add: cli_eval)
  show ?thesis
    using declined_overwrite_aborts [OF i c] i c by simp
qed

subsection \<open>The disabled modules\<close>

text \<open>
  Against C4 as stated: called with no option at all, the command line hands the generator
  the list \<open>[''hostname'']\<close>, although no disable flag was passed.
\<close>

theorem hostname_disabled_without_flag:
  "cli no_files default_args =
     ([ConfigureLogging, PathExists default_output_path,
       CreateCloudInitConfig (generator_args default_args default_output_path)], Return ()) \<and>
   ''hostname'' \<in> set (kw_disabled_configs (generator_args default_args default_output_path)) \<and>
   \<not> disable_flag_passed default_args ''hostname''"
  by (simp add: cli_eval disable_flag_passed_def)

text \<open>
  C4, amended. Whenever the generator is called, its \<^verbatim>\<open>disabled_configs\<close> holds apt, snap,
  ssh and user exactly when the matching disable flag was passed, holds hostname exactly
  when \<^verbatim>\<open>--enable-hostname\<close> was not passed, and holds nothing else.
\<close>

theorem disabled_configs_from_flags:
  assumes "CreateCloudInitConfig g \<in> set (fst (cli e a))"
  shows "(''apt'' \<in> set (kw_disabled_configs g) \<longleftrightarrow> disable_apt a) \<and>
         (''snap'' \<in> set (kw_disabled_configs g) \<longleftrightarrow> disable_snap a) \<and>
         (''ssh'' \<in> set (kw_disabled_configs g) \<longleftrightarrow> disable_ssh a) \<and>
         (''user'' \<in> set (kw_disabled_configs g) \<longleftrightarrow> disable_user a) \<and>
         (''hostname'' \<in> set (kw_disabled_configs g) \<longleftrightarrow> \<not> enable_hostname a) \<and>
         set (kw_disabled_configs g) \<subseteq> {''apt'', ''snap'', ''ssh'', ''user'', ''hostname''}"
proof -
  from cli_generator_call [OF assms] obtain p where "g = generator_args a p" by blast
  then have ds: "kw_disabled_configs g = disabled_configs a"
    by (simp add: generator_args_def)
  show ?thesis unfolding ds by (auto simp: disabled_configs_def)
qed

theorem disabled_configs_from_flags_witness:
  "CreateCloudInitConfig (generator_args (default_args\<lparr>disable_ssh := True, enable_hostname := True\<rparr>)
       default_output_path)
     \<in> set (fst (cli no_files (default_args\<lparr>disable_ssh := True, enable_hostname := True\<rparr>))) \<and>
   ''ssh'' \<in> set (kw_disabled_configs (generator_args
       (default_args\<lparr>disable_ssh := True, enable_hostname := True\<rparr>) default_output_path)) \<and>
   ''hostname'' \<notin> set (kw_disabled_configs (generator_args
       (default_args\<lparr>disable_ssh := True, enable_hostname := True\<rparr>) default_output_path))"
proof -
  let ?a = "default_args\<lparr>disable_ssh := True, enable_hostname := True\<rparr>"
  have c: "CreateCloudInitConfig (generator_args ?a default_output_path)
             \<in> set (fst (cli no_files ?a))"
    by (simp add: cli_eval)
  show ?thesis
    using disabled_configs_from_flags [OF c] c by (simp add: default_args_def)
qed

subsection \<open>Forced and interactive runs\<close>

text \<open>
  Against C8 as stated: with \<^verbatim>\<open>-i -f --disable-apt\<close> the force flag is given, yet the run
  is rejected at line 124 and no warning is printed.
\<close>

theorem conflict_suppresses_warning:
  "force (default_args\<lparr>interactive := True, force := True, disable_apt := True\<rparr>) \<and>
   cli no_files (default_args\<lparr>interactive := True, force := True, disable_apt := True\<rparr>) =
     ([ConfigureLogging, PrintError conflict_message], SysExit 1) \<and>
   PrintWarning (overwrite_message
       (output_path (default_args\<lparr>interactive := True, force := True, disable_apt := True\<rparr>)))
     \<notin> set (fst (cli no_files
         (default_args\<lparr>interactive := True, force := True, disable_apt := True\<rparr>)))"
  by (simp add: cli_eval)

text \<open>
  C8, amended. Whenever \<^verbatim>\<open>--force\<close> is given and the run is not rejected for combining
  interactive mode with a disable or enable flag, \<^verbatim>\<open>print_warning\<close> is called with the text
  of line 134, whatever the file system holds, and the run goes on to the generator.
\<close>

theorem force_prints_overwrite_warning:
  assumes "force a" and "\<not> flag_conflict a"
  shows "PrintWarning (overwrite_message (output_path a)) \<in> set (fst (cli e a)) \<and>
         snd (cli e a) = Return ()"
  by (simp add: cli_forced [OF assms])

theorem force_prints_overwrite_warning_witness:
  "force (default_args\<lparr>force := True\<rparr>) \<and>
   PrintWarning (overwrite_message default_output_path)
     \<in> set (fst (cli no_files (default_args\<lparr>force := True\<rparr>))) \<and>
   PrintWarning (overwrite_message default_output_path)
     \<in> set (fst (cli (no_files\<lparr>path_exists := (\<lambda>p. True)\<rparr>) (default_args\<lparr>force := True\<rparr>))) \<and>
   os_path_exists (no_files\<lparr>path_exists := (\<lambda>p. True)\<rparr>) default_output_path"
proof -
  let ?a = "default_args\<lparr>force := True\<rparr>"
  have f: "force ?a" by (simp add: default_args_def)
  have nc: "\<not> flag_conflict ?a" by (simp add: default_args_def flag_conflict_def)
  have p: "output_path ?a = default_output_path" by (simp add: default_args_def)
  show ?thesis
    using force_prints_overwrite_warning [OF f nc, of no_files]
      force_prints_overwrite_warning [OF f nc, of "no_files\<lparr>path_exists := (\<lambda>p. True)\<rparr>"] f
    by (simp add: p os_path_exists_def)
qed

text \<open>
  Against C9 as stated: with \<^verbatim>\<open>-i -f --enable-hostname\<close> the run is interactive and forced,
  yet it ends at line 126 and the generator is not called.
\<close>

theorem conflict_blocks_generator:
  "interactive (default_args\<lparr>interactive := True, force := True, enable_hostname := True\<rparr>) \<and>
   force (default_args\<lparr>interactive := True, force := True, enable_hostname := True\<rparr>) \<and>
   cli no_files (default_args\<lparr>interactive := True, force := True, enable_hostname := True\<rparr>) =
     ([ConfigureLogging, PrintError conflict_message], SysExit 1)"
  by (simp add: cli_eval)

text \<open>
  C9, amended. In interactive mode with \<^verbatim>\<open>--force\<close> the operator is neither prompted for
  a path nor asked to confirm, and the message of \<^verbatim>\<open>get_output_path\<close> is not printed:
  that function is not called. Unless the run is rejected for a disable or enable flag,
  the generator is called with the output path as given (or its default).
\<close>

theorem interactive_force_asks_nothing:
  assumes "interactive a" and "force a"
  shows "(\<forall>ev \<in> set (fst (cli e a)). \<not> is_prompt ev \<and> \<not> is_confirm ev \<and> \<not> is_info ev) \<and>
         (\<not> flag_conflict a \<longrightarrow>
            cli e a = (startup a @ [PathExists (output_path a),
                         PrintWarning (overwrite_message (output_path a)),
                         CreateCloudInitConfig (generator_args a (output_path a))], Return ()))"
proof (cases "flag_conflict a")
  case True
  then show ?thesis by (auto simp: cli_conflict dest: startup_events)
next
  case False
  note eq = cli_forced [OF assms(2) False]
  from False show ?thesis unfolding eq by (auto dest: startup_events)
qed

theorem interactive_force_asks_nothing_witness:
  "interactive (default_args\<lparr>interactive := True, force := True, output_path := ''a.yaml''\<rparr>) \<and>
   force (default_args\<lparr>interactive := True, force := True, output_path := ''a.yaml''\<rparr>) \<and>
   cli \<lparr>path_exists = (\<lambda>p. True), prompt_answer = Some ''b.yaml'', confirm_answer = Some False\<rparr>
       (default_args\<lparr>interactive := True, force := True, output_path := ''a.yaml''\<rparr>) =
     ([ConfigureLogging, PathExists ''a.yaml'', PrintWarning (overwrite_message ''a.yaml''),
       CreateCloudInitConfig
         (generator_args (default_args\<lparr>interactive := True, force := True,
            output_path := ''a.yaml''\<rparr>) ''a.yaml'')],
      Return ())"
proof -
  let ?a = "default_args\<lparr>interactive := True, force := True, output_path := ''a.yaml''\<rparr>"
  have i: "interactive ?a" and f: "force ?a" by (simp_all add: default_args_def)
  have nc: "\<not> flag_conflict ?a" by (simp add: default_args_def flag_conflict_def)
  show ?thesis
    using interactive_force_asks_nothing [OF i f,
        of "\<lparr>path_exists = (\<lambda>p. True), prompt_answer = Some ''b.yaml'',
             confirm_answer = Some False\<rparr>"]
      i f nc
    by (simp add: startup_def default_args_def)
qed

text \<open>
  Against C10 as stated: with \<^verbatim>\<open>-i --disable-ssh -o old.yaml\<close> and \<^verbatim>\<open>old.yaml\<close> on disk,
  the run is interactive, not forced, the file exists, and no confirmation is performed.
\<close>

theorem conflict_skips_confirmation:
  "interactive (default_args\<lparr>interactive := True, disable_ssh := True, output_path := ''old.yaml''\<rparr>) \<and>
   \<not> force (default_args\<lparr>interactive := True, disable_ssh := True, output_path := ''old.yaml''\<rparr>) \<and>
   os_path_exists (no_files\<lparr>path_exists := (\<lambda>p. p = ''old.yaml'')\<rparr>)
     (output_path (default_args\<lparr>interactive := True, disable_ssh := True,
        output_path := ''old.yaml''\<rparr>)) \<and>
   cli (no_files\<lparr>path_exists := (\<lambda>p. p = ''old.yaml'')\<rparr>)
       (default_args\<lparr>interactive := True, disable_ssh := True, output_path := ''old.yaml''\<rparr>) =
     ([ConfigureLogging, PrintError conflict_message], SysExit 1)"
  by (simp add: cli_eval)

text \<open>
  C10, amended. In interactive mode without \<^verbatim>\<open>--force\<close>: the operator is prompted for the
  path exactly when the caller left it at \<^verbatim>\<open>cloud-config.yaml\<close> and the run is not rejected
  for a disable or enable flag; the overwrite confirmation is performed exactly when the
  chosen path exists and the run is not so rejected; and a call of the generator gets the
  operator's answer in the first case and the caller's own path in the second.
\<close>

theorem interactive_path_choice:
  assumes "interactive a" and "\<not> force a"
  shows "(list_ex is_prompt (fst (cli e a)) \<longleftrightarrow>
            output_path a = default_output_path \<and> \<not> flag_conflict a) \<and>
         (list_ex is_confirm (fst (cli e a)) \<longleftrightarrow>
            os_path_exists e (chosen_path e (output_path a)) \<and> \<not> flag_conflict a) \<and>
         (\<forall>g. CreateCloudInitConfig g \<in> set (fst (cli e a)) \<longrightarrow>
            kw_output_path g =
              (if output_path a = default_output_path then click_prompt e default_output_path
               else output_path a))"
proof (cases "flag_conflict a")
  case True
  then show ?thesis
    by (auto simp: cli_conflict list_ex_iff dest: startup_events)
next
  case False
  note eq = cli_interactive_trace [OF assms False]
  from False show ?thesis unfolding eq
    by (auto simp: Let_def list_ex_iff chosen_path_def generator_args_def dest: startup_events)
qed

theorem interactive_path_choice_witness:
  "interactive (default_args\<lparr>interactive := True, output_path := ''old.yaml''\<rparr>) \<and>
   \<not> force (default_args\<lparr>interactive := True, output_path := ''old.yaml''\<rparr>) \<and>
   \<not> list_ex is_prompt (fst (cli \<lparr>path_exists = (\<lambda>p. p = ''old.yaml''),
        prompt_answer = Some ''new.yaml'', confirm_answer = Some True\<rparr>
        (default_args\<lparr>interactive := True, output_path := ''old.yaml''\<rparr>))) \<and>
   list_ex is_confirm (fst (cli \<lparr>path_exists = (\<lambda>p. p = ''old.yaml''),
        prompt_answer = Some ''new.yaml'', confirm_answer = Some True\<rparr>
        (default_args\<lparr>interactive := True, output_path := ''old.yaml''\<rparr>))) \<and>
   list_ex is_prompt (fst (cli \<lparr>path_exists = (\<lambda>p. p = ''old.yaml''),
        prompt_answer = Some ''old.yaml'', confirm_answer = Some True\<rparr>
        (default_args\<lparr>interactive := True\<rparr>))) \<and>
   list_ex is_confirm (fst (cli \<lparr>path_exists = (\<lambda>p. p = ''old.yaml''),
        prompt_answer = Some ''old.yaml'', confirm_answer = Some True\<rparr>
        (default_args\<lparr>interactive := True\<rparr>)))"
proof -
  let ?a = "default_args\<lparr>interactive := True, output_path := ''old.yaml''\<rparr>"
  let ?b = "default_args\<lparr>interactive := True\<rparr>"
  let ?e = "\<lparr>path_exists = (\<lambda>p. p = ''old.yaml''),
        prompt_answer = Some ''new.yaml'', confirm_answer = Some True\<rparr>"
  let ?f = "\<lparr>path_exists = (\<lambda>p. p = ''old.yaml''),
        prompt_answer = Some ''old.yaml'', confirm_answer = Some True\<rparr>"
  have ia: "interactive ?a" and fa: "\<not> force ?a" and ib: "interactive ?b" and fb: "\<not> force ?b"
    by (simp_all add: default_args_def)
  have nc: "\<not> flag_conflict ?a" "\<not> flag_conflict ?b"
    by (simp_all add: default_args_def flag_conflict_def)
  have ex: "os_path_exists ?e (chosen_path ?e (output_path ?a))"
      "os_path_exists ?f (chosen_path ?f (output_path ?b))"
    by (simp_all add: cli_eval)
  have pa: "output_path ?a \<noteq> default_output_path" "output_path ?b = default_output_path"
    by (simp_all add: default_args_def default_output_path_def)
  show ?thesis
    using interactive_path_choice [OF ia fa, of ?e] interactive_path_choice [OF ib fb, of ?f]
      ia fa nc ex pa
    by simp
qed

section \<open>Facts about the assembly engine\<close>

subsection \<open>Runs of the state machine\<close>

lemma engine_step_deterministic:
  assumes "engine_step g h c ms s s1" and "engine_step g h c ms s s2"
  shows "s1 = s2"
  using assms by (auto elim!: engine_step.cases)

lemma final_no_step:
  assumes "final s" shows "\<not> engine_step g h c ms s s'"
  using assms by (auto elim: engine_step.cases)

lemma runs_meet:
  assumes "(engine_step g h c ms)\<^sup>*\<^sup>* s s1" and "final s1"
    and "(engine_step g h c ms)\<^sup>*\<^sup>* s s2" and "final s2"
  shows "s1 = s2"
  using assms
proof (induction rule: converse_rtranclp_induct)
  case base
  then show ?case
    by (metis converse_rtranclpE final_no_step)
next
  case (step x y)
  from step.prems(2) show ?case
  proof (cases rule: converse_rtranclpE)
    case base
    with step.hyps(1) step.prems(3) show ?thesis
      by (auto dest: final_no_step)
  next
    case (step z)
    with step.hyps(1) have "z = y" by (blast intro: engine_step_deterministic)
    with step step.IH step.prems show ?thesis by blast
  qed
qed

lemma run_from_index:
  assumes "i \<le> length ms"
  shows "(case snd (gather_all g h c (drop i ms)) of
            Inl err \<Rightarrow> (engine_step g h c ms)\<^sup>*\<^sup>* (Running i fs) (Failed err)
          | Inr fs' \<Rightarrow> (engine_step g h c ms)\<^sup>*\<^sup>* (Running i fs) (Running (length ms) (fs @ fs')))"
  using assms
proof (induction "length ms - i" arbitrary: i fs)
  case 0
  then show ?case by simp
next
  case (Suc n)
  then have lt: "i < length ms" and n: "n = length ms - Suc i" and le: "Suc i \<le> length ms"
    by simp_all
  have dr: "drop i ms = ms ! i # drop (Suc i) ms"
    using lt by (simp add: Cons_nth_drop_Suc)
  show ?case
  proof (cases "g (ms ! i) h c")
    case (Fragment f)
    then have st: "engine_step g h c ms (Running i fs) (Running (Suc i) (fs @ [f]))"
      using lt by (rule_tac engine_step.contributed)
    from Suc.hyps(1) [OF n le, of "fs @ [f]"] st Fragment show ?thesis
      by (auto simp: dr split: sum.splits prod.splits intro: converse_rtranclp_into_rtranclp)
  next
    case Disabled
    then have st: "engine_step g h c ms (Running i fs) (Running (Suc i) fs)"
      using lt by (rule_tac engine_step.skipped)
    from Suc.hyps(1) [OF n le, of fs] st Disabled show ?thesis
      by (auto simp: dr split: sum.splits prod.splits intro: converse_rtranclp_into_rtranclp)
  next
    case (GatherError why)
    then have "engine_step g h c ms (Running i fs) (Failed (GatherFailure (ms ! i) why))"
      using lt by (rule_tac engine_step.aborted)
    with GatherError show ?thesis by (simp add: dr)
  qed
qed

lemma assemble_is_a_run:
  "engine_run g h c D Pending (outcome_state (assemble g h D c))"
proof -
  let ?ms = "enabled_modules D"
  let ?step = "engine_step g h c ?ms"
  have s0: "?step Pending (Running 0 [])" by (rule engine_step.start)
  show ?thesis
  proof (cases "snd (gather_all g h c ?ms)")
    case (Inl err)
    with run_from_index [of 0 ?ms g h c "[]"] have "?step\<^sup>*\<^sup>* (Running 0 []) (Failed err)"
      by simp
    with s0 Inl show ?thesis
      by (simp add: engine_run_def assemble_def converse_rtranclp_into_rtranclp)
  next
    case (Inr fs)
    with run_from_index [of 0 ?ms g h c "[]"]
    have r: "?step\<^sup>*\<^sup>* (Running 0 []) (Running (length ?ms) fs)" by simp
    have "?step (Running (length ?ms) fs) (outcome_state (merge_all [] fs))"
      by (cases "merge_all [] fs") (auto intro: engine_step.merged engine_step.clashed)
    with r have "?step\<^sup>*\<^sup>* (Running 0 []) (outcome_state (merge_all [] fs))"
      by (rule rtranclp.rtrancl_into_rtrancl)
    with s0 Inr show ?thesis
      by (simp add: engine_run_def assemble_def converse_rtranclp_into_rtranclp)
  qed
qed

lemma final_outcome_state: "final (outcome_state r)"
  by (cases r) simp_all

lemma gather_all_invoked_prefix: "prefix (fst (gather_all g h c ms)) ms"
  by (induction ms) (auto split: gather_result.splits prod.splits sum.splits)



lemma gather_all_complete:
  "snd (gather_all g h c ms) = Inr fs \<Longrightarrow> fst (gather_all g h c ms) = ms"
  by (induction ms arbitrary: fs) (auto split: gather_result.splits prod.splits sum.splits)

lemma enabled_modules_by_key:
  "enabled_modules (disabled_set names) = filter (\<lambda>m. module_key m \<notin> set names) module_order"
  by (simp add: enabled_modules_def disabled_set_def module_order_def)

lemma disabled_configs_ordered:
  "disabled_configs a =
     filter (\<lambda>n. n \<in> set (disabled_configs a)) (map module_key module_order)"
  by (cases "disable_apt a"; cases "disable_snap a"; cases "disable_ssh a";
      cases "disable_user a"; cases "enable_hostname a")
     (simp_all add: disabled_configs_def module_order_def)

subsection \<open>Order and failure\<close>

text \<open>
  C5. The list of disabled modules that \<^verbatim>\<open>cli.py\<close> hands to the generator is the fixed
  order apt, snap, ssh, user, hostname restricted to its members. The modules the engine
  invokes are, in the order of invocation, an initial part of that same fixed order
  restricted to the modules not disabled, and all of it when no module fails.
\<close>

theorem modules_in_fixed_order:
  assumes "CreateCloudInitConfig k \<in> set (fst (cli e a))"
  shows "kw_disabled_configs k =
           filter (\<lambda>n. n \<in> set (kw_disabled_configs k)) (map module_key module_order) \<and>
         prefix (fst (gather_all g h c (enabled_modules (disabled_set (kw_disabled_configs k)))))
           (filter (\<lambda>m. module_key m \<notin> set (kw_disabled_configs k)) module_order) \<and>
         (snd (gather_all g h c (enabled_modules (disabled_set (kw_disabled_configs k)))) = Inr fs
            \<longrightarrow> fst (gather_all g h c (enabled_modules (disabled_set (kw_disabled_configs k))))
                = filter (\<lambda>m. module_key m \<notin> set (kw_disabled_configs k)) module_order)"
proof -
  have "prefix (fst (gather_all g h c (enabled_modules (disabled_set (kw_disabled_configs k)))))
          (enabled_modules (disabled_set (kw_disabled_configs k)))"
    by (rule gather_all_invoked_prefix)
  moreover from cli_generator_call [OF assms] obtain p where "k = generator_args a p"
    by blast
  then have "kw_disabled_configs k = disabled_configs a"
    by (simp add: generator_args_def)
  ultimately show ?thesis
    using disabled_configs_ordered [of a] gather_all_complete [of g h c _ fs]
    by (simp add: enabled_modules_by_key)
qed

theorem modules_in_fixed_order_witness:
  "CreateCloudInitConfig (generator_args (default_args\<lparr>disable_snap := True\<rparr>) default_output_path)
     \<in> set (fst (cli no_files (default_args\<lparr>disable_snap := True\<rparr>))) \<and>
   kw_disabled_configs (generator_args (default_args\<lparr>disable_snap := True\<rparr>) default_output_path)
     = [''snap'', ''hostname''] \<and>
   fst (gather_all sample_modules () sample_context
          (enabled_modules (disabled_set [''snap'', ''hostname'']))) = [Apt, Ssh] \<and>
   prefix [Apt, Ssh] [Apt, Ssh, User]"
proof -
  let ?a = "default_args\<lparr>disable_snap := True\<rparr>"
  have c: "CreateCloudInitConfig (generator_args ?a default_output_path)
             \<in> set (fst (cli no_files ?a))"
    by (simp add: cli_eval)
  have k: "kw_disabled_configs (generator_args ?a default_output_path) = [''snap'', ''hostname'']"
    by (simp add: generator_args_def disabled_configs_def default_args_def)
  have g: "fst (gather_all sample_modules () sample_context
             (enabled_modules (disabled_set [''snap'', ''hostname'']))) = [Apt, Ssh]"
    by (simp add: enabled_modules_by_key module_order_def)
  show ?thesis
    using modules_in_fixed_order [OF c, of sample_modules "()" sample_context "[]"] c
    by (simp add: k g module_order_def)
qed

text \<open>
  C7. When a run reaches a module whose gathering fails, the run ends in
  \<open>Failed\<close> naming that module and its cause, \<open>assemble\<close> returns that failure, and no run
  for this input returns a document, not even a partial one.
\<close>

theorem gather_error_fails_whole_run:
  assumes "engine_run g h c D Pending (Running i fs)"
    and "i < length (enabled_modules D)"
    and "g (enabled_modules D ! i) h c = GatherError why"
  shows "engine_run g h c D Pending (Failed (GatherFailure (enabled_modules D ! i) why)) \<and>
         (\<forall>doc. \<not> engine_run g h c D Pending (Succeeded doc)) \<and>
         assemble g h D c = Inl (GatherFailure (enabled_modules D ! i) why)"
proof -
  let ?ms = "enabled_modules D"
  let ?failed = "Failed (GatherFailure (?ms ! i) why)"
  have "engine_step g h c ?ms (Running i fs) ?failed"
    using assms(2) assms(3) by (rule engine_step.aborted)
  with assms(1) have run: "(engine_step g h c ?ms)\<^sup>*\<^sup>* Pending ?failed"
    unfolding engine_run_def by (rule rtranclp.rtrancl_into_rtrancl)
  have ff: "final ?failed" by simp
  have no_doc: "\<not> engine_run g h c D Pending (Succeeded doc)" for doc
  proof
    assume "engine_run g h c D Pending (Succeeded doc)"
    then have "(engine_step g h c ?ms)\<^sup>*\<^sup>* Pending (Succeeded doc)"
      by (simp add: engine_run_def)
    moreover have "final (Succeeded doc)" by simp
    ultimately have "Succeeded doc = ?failed" using run ff by (rule runs_meet)
    then show False by simp
  qed
  have "outcome_state (assemble g h D c) = ?failed"
    using assemble_is_a_run [of g h c D] final_outcome_state run ff
    unfolding engine_run_def by (rule runs_meet)
  then have "assemble g h D c = Inl (GatherFailure (?ms ! i) why)"
    by (cases "assemble g h D c") simp_all
  with run no_doc show ?thesis by (simp add: engine_run_def)
qed

theorem gather_error_fails_whole_run_witness:
  "engine_run sample_modules () sample_context {} Pending
     (Running 2 [[(''apt'', Scalar ''sources'')]]) \<and>
   2 < length (enabled_modules {}) \<and>
   enabled_modules {} ! 2 = Ssh \<and>
   sample_modules Ssh () sample_context = GatherError ''permission denied'' \<and>
   assemble sample_modules () {} sample_context = Inl (GatherFailure Ssh ''permission denied'')"
proof -
  let ?ms = "enabled_modules {}"
  let ?f = "[(''apt'', Scalar ''sources'')]"
  let ?step = "engine_step sample_modules () sample_context ?ms"
  have ms: "?ms = [Apt, Snap, Ssh, User, Hostname]"
    by (simp add: enabled_modules_def module_order_def)
  have s0: "?step Pending (Running 0 [])" by (rule engine_step.start)
  have s1: "?step (Running 0 []) (Running (Suc 0) ([] @ [?f]))"
    by (rule engine_step.contributed) (simp_all add: ms)
  have s2: "?step (Running (Suc 0) ([] @ [?f])) (Running (Suc (Suc 0)) ([] @ [?f]))"
    by (rule engine_step.skipped) (simp_all add: ms)
  from s0 s1 s2 have "?step\<^sup>*\<^sup>* Pending (Running (Suc (Suc 0)) ([] @ [?f]))"
    by (meson rtranclp.rtrancl_into_rtrancl rtranclp.rtrancl_refl)
  then have r: "engine_run sample_modules () sample_context {} Pending (Running 2 [?f])"
    by (simp add: engine_run_def numeral_2_eq_2)
  have i: "2 < length ?ms" by (simp add: ms)
  have e: "sample_modules (?ms ! 2) () sample_context = GatherError ''permission denied''"
    by (simp add: ms)
  have m: "?ms ! 2 = Ssh" by (simp add: ms)
  show ?thesis
    using gather_error_fails_whole_run [OF r i e] r i e m by simp
qed

end
